theory Spec2Isabelle
  imports Main "HOL-Library.AList"
begin

section \<open>WebSocket connection management: the data model\<close>

text \<open>
  The module \<^verbatim>\<open>dice_be/managers/connection.py\<close> defines one class,
  \<^verbatim>\<open>ConnectionManager\<close>, whose only field is the dictionary
  \<^verbatim>\<open>connections: dict[ObjectId, WebSocket]\<close>.

  \<^item> An \<^verbatim>\<open>ObjectId\<close> is an opaque comparable key; a number stands for it.
  \<^item> A \<^verbatim>\<open>WebSocket\<close> is an object of the transport library; the manager only
    keeps a reference to it, so a number stands for the reference.
  \<^item> A Python dictionary keeps its keys in insertion order and the fan-out methods
    iterate over \<^verbatim>\<open>connections.items()\<close>, so the dictionary is an association
    list: assignment to an existing key keeps its place, assignment to a new key
    appends, \<^verbatim>\<open>del\<close> removes.
  \<^item> Of \<^verbatim>\<open>User\<close> and \<^verbatim>\<open>PlayerData\<close> the module reads the fields
    \<^verbatim>\<open>id\<close> and \<^verbatim>\<open>name\<close> only.
  \<^item> Nothing is recorded of what \<^verbatim>\<open>logger.debug\<close> writes. The log line of
    \<^verbatim>\<open>send\<close> formats an \<^verbatim>\<open>ObjectId\<close> (its hexadecimal text) and that of
    \<^verbatim>\<open>personal_broadcast\<close> formats nothing. The log line of \<^verbatim>\<open>broadcast\<close>
    is an f-string that calls \<^verbatim>\<open>pformat(data)\<close>, hence the \<^verbatim>\<open>__repr__\<close> of the
    payload, which may raise: this call is part of the model.
\<close>

type_synonym object_id = nat

type_synonym websocket = nat

record user =
  user_id :: object_id
  user_name :: string

record player_data =
  player_id :: object_id

text \<open>The first argument of \<^verbatim>\<open>send\<close>: \<^verbatim>\<open>User | PlayerData | ObjectId\<close>.\<close>

datatype client = User user | PlayerData player_data | ObjectId object_id

text \<open>
  The second argument of \<^verbatim>\<open>send\<close> is annotated \<^verbatim>\<open>str | dict | BaseModel\<close>, and
  Python does not enforce the annotation: \<open>Obj\<close> is a value of any other class.
\<close>

datatype ('d, 'm, 'o) data = Str string | Dict 'd | Model 'm | Obj 'o

text \<open>
  Exceptions. \<open>KeyError k\<close> is the miss of a dictionary lookup on key \<open>k\<close>;
  \<open>LookupError k e\<close> is \<^verbatim>\<open>LookupError(f'Client {k} is not connected')\<close> raised
  \<^verbatim>\<open>from e\<close> (the cause is kept); \<open>Raised msg\<close> is any exception of another
  class, raised by a collaborator (the transport, the serialisers).
\<close>

datatype exn = KeyError object_id | LookupError object_id exn | Raised string

text \<open>
  The collaborators, which are not part of the module, are parameters:
  \<^item> \<open>json_dumps\<close> is \<^verbatim>\<open>json.dumps\<close> and \<open>model_json\<close> is \<^verbatim>\<open>BaseModel.json\<close>;
    both return text or raise (an object that cannot be serialised);
  \<^item> \<open>pformat d\<close> is \<^verbatim>\<open>pprint.pformat(d)\<close>: the exception it raises, if any (the
    text it returns goes to the log only);
  \<^item> \<open>send_text ws x\<close> is the write \<^verbatim>\<open>ws.send_text(x)\<close>: the logical instant at
    which the awaited write settles (\<open>0\<close>: it never suspends) and the exception it
    raises, if any;
  \<^item> \<open>close ws\<close> is \<^verbatim>\<open>ws.close()\<close>: the exception it raises, if any.

  How a socket behaves is fixed for the length of one call of a method, and a
  collaborator may raise any exception, a \<^verbatim>\<open>KeyError\<close> included.
\<close>

record ('d, 'm, 'o) env =
  json_dumps :: "'d \<Rightarrow> exn + string"
  model_json :: "'m \<Rightarrow> exn + string"
  pformat :: "('d, 'm, 'o) data \<Rightarrow> exn option"
  send_text :: "websocket \<Rightarrow> ('d, 'm, 'o) data \<Rightarrow> nat \<times> exn option"
  close :: "websocket \<Rightarrow> exn option"

text \<open>The calls made on the transport, in the order in which they are made.\<close>

datatype ('d, 'm, 'o) event = SendText websocket "('d, 'm, 'o) data" | Close websocket

record connection_manager =
  connections :: "(object_id \<times> websocket) list"

text \<open>
  What an awaited method leaves behind: the exception it raised (\<open>None\<close>: it
  returned), the manager afterwards, and the transport calls it made.
\<close>

record ('d, 'm, 'o) run =
  raised :: "exn option"
  manager :: connection_manager
  calls :: "('d, 'm, 'o) event list"

text \<open>A \<^verbatim>\<open>send\<close> that runs as a task also has the instant at which it settles.\<close>

record ('d, 'm, 'o) task = "('d, 'm, 'o) run" +
  settles :: nat

text \<open>
  A fan-out (\<^verbatim>\<open>asyncio.gather\<close>) has the instant at which the awaiting caller is
  resumed and the tasks it started, in the order in which it started them.
\<close>

record ('d, 'm, 'o) fanout = "('d, 'm, 'o) run" +
  returns_at :: nat
  sends :: "('d, 'm, 'o) task list"

section \<open>The methods of \<^verbatim>\<open>ConnectionManager\<close>\<close>

text \<open>\<^verbatim>\<open>__init__\<close>: \<^verbatim>\<open>self.connections = {}\<close>.\<close>

definition init :: connection_manager where
  "init = \<lparr>connections = []\<rparr>"

text \<open>\<^verbatim>\<open>__getitem__\<close>: \<^verbatim>\<open>return self.connections.__getitem__(client.id)\<close>.\<close>

definition getitem :: "connection_manager \<Rightarrow> user \<Rightarrow> exn + websocket" where
  "getitem self client =
     (case map_of (connections self) (user_id client) of
        None \<Rightarrow> Inl (KeyError (user_id client))
      | Some ws \<Rightarrow> Inr ws)"

text \<open>\<^verbatim>\<open>add_connection\<close>: \<^verbatim>\<open>self.connections[client.id] = connection\<close>.\<close>

definition add_connection :: "connection_manager \<Rightarrow> user \<Rightarrow> websocket \<Rightarrow> connection_manager" where
  "add_connection self client connection =
     self\<lparr>connections := AList.update (user_id client) connection (connections self)\<rparr>"

text \<open>\<^verbatim>\<open>disconnect\<close>: \<^verbatim>\<open>await self.connections[client.id].close()\<close>, and nothing else.\<close>

definition disconnect ::
  "('d, 'm, 'o) env \<Rightarrow> connection_manager \<Rightarrow> user \<Rightarrow> ('d, 'm, 'o) run" where
  "disconnect E self client =
     (case map_of (connections self) (user_id client) of
        None \<Rightarrow> \<lparr>raised = Some (KeyError (user_id client)), manager = self, calls = []\<rparr>
      | Some ws \<Rightarrow> \<lparr>raised = close E ws, manager = self, calls = [Close ws]\<rparr>)"

text \<open>\<^verbatim>\<open>remove_connection\<close>: \<^verbatim>\<open>del self.connections[client.id]\<close>.\<close>

definition remove_connection :: "connection_manager \<Rightarrow> user \<Rightarrow> exn + connection_manager" where
  "remove_connection self client =
     (case map_of (connections self) (user_id client) of
        None \<Rightarrow> Inl (KeyError (user_id client))
      | Some ws \<Rightarrow> Inr (self\<lparr>connections := AList.delete (user_id client) (connections self)\<rparr>))"

text \<open>
  The first lines of \<^verbatim>\<open>send\<close>: a \<^verbatim>\<open>dict\<close> goes through \<^verbatim>\<open>json.dumps\<close>, a
  \<^verbatim>\<open>BaseModel\<close> through its \<^verbatim>\<open>json()\<close>, and there is no \<^verbatim>\<open>else\<close>: anything
  else stays as it is.
\<close>

definition encode :: "('d, 'm, 'o) env \<Rightarrow> ('d, 'm, 'o) data \<Rightarrow> exn + ('d, 'm, 'o) data" where
  "encode E d =
     (case d of
        Dict x \<Rightarrow> (case json_dumps E x of Inl e \<Rightarrow> Inl e | Inr s \<Rightarrow> Inr (Str s))
      | Model m \<Rightarrow> (case model_json E m of Inl e \<Rightarrow> Inl e | Inr s \<Rightarrow> Inr (Str s))
      | _ \<Rightarrow> Inr d)"

text \<open>\<^verbatim>\<open>if isinstance(client, (User, PlayerData)): client = client.id\<close>.\<close>

fun id_of :: "client \<Rightarrow> object_id" where
  "id_of (User u) = user_id u"
| "id_of (PlayerData p) = player_id p"
| "id_of (ObjectId k) = k"

text \<open>
  The handler \<^verbatim>\<open>except KeyError as e: raise LookupError(...) from e\<close> encloses both
  the lookup and the awaited write, so it catches a \<^verbatim>\<open>KeyError\<close> of either.
\<close>

fun except_KeyError :: "object_id \<Rightarrow> exn option \<Rightarrow> exn option" where
  "except_KeyError c (Some (KeyError k)) = Some (LookupError c (KeyError k))"
| "except_KeyError c r = r"

definition send ::
  "('d, 'm, 'o) env \<Rightarrow> connection_manager \<Rightarrow> client \<Rightarrow> ('d, 'm, 'o) data \<Rightarrow> ('d, 'm, 'o) task" where
  "send E self client d =
     (case encode E d of
        Inl e \<Rightarrow> \<lparr>raised = Some e, manager = self, calls = [], settles = 0\<rparr>
      | Inr x \<Rightarrow>
          (let c = id_of client in
           case map_of (connections self) c of
             None \<Rightarrow>
               \<lparr>raised = except_KeyError c (Some (KeyError c)), manager = self, calls = [],
                settles = 0\<rparr>
           | Some ws \<Rightarrow>
               \<lparr>raised = except_KeyError c (snd (send_text E ws x)), manager = self,
                calls = [SendText ws x], settles = fst (send_text E ws x)\<rparr>))"

subsection \<open>\<^verbatim>\<open>asyncio.gather(*coroutines, return_exceptions=False)\<close>\<close>

text \<open>
  \<^verbatim>\<open>gather\<close> wraps every coroutine in a task. The tasks take their first step in
  the order of the arguments, before the caller is resumed; a \<^verbatim>\<open>send\<close> suspends
  nowhere but inside the write, so by then every write has been called, and what
  remains open is when it settles. \<open>start\<close> runs these first steps, each on the
  manager the one before left.
\<close>

fun start ::
  "(connection_manager \<Rightarrow> ('d, 'm, 'o) task) list \<Rightarrow> connection_manager \<Rightarrow>
   ('d, 'm, 'o) task list \<times> connection_manager" where
  "start [] self = ([], self)"
| "start (c # cs) self =
     (let r = c self; (rs, self') = start cs (manager r) in (r # rs, self'))"

text \<open>
  With \<^verbatim>\<open>return_exceptions=False\<close> the first exception to be raised is propagated
  to the caller at once, and the other tasks are not cancelled: they go on.
  \<open>first_failure\<close> is the failed task that settles first (of two that settle
  at the same instant, the one started first), with its instant. When no task
  fails, the caller is resumed once the last task has settled.
\<close>

fun first_failure :: "('d, 'm, 'o) task list \<Rightarrow> (nat \<times> exn) option" where
  "first_failure [] = None"
| "first_failure (r # rs) =
     (case raised r of
        None \<Rightarrow> first_failure rs
      | Some e \<Rightarrow>
          (case first_failure rs of
             None \<Rightarrow> Some (settles r, e)
           | Some (t, e') \<Rightarrow> if settles r \<le> t then Some (settles r, e) else Some (t, e')))"

definition gather ::
  "(connection_manager \<Rightarrow> ('d, 'm, 'o) task) list \<Rightarrow> connection_manager \<Rightarrow> ('d, 'm, 'o) fanout" where
  "gather cs self =
     (let (rs, self') = start cs self in
      case first_failure rs of
        None \<Rightarrow>
          \<lparr>raised = None, manager = self', calls = concat (map calls rs),
           returns_at = fold max (map settles rs) 0, sends = rs\<rparr>
      | Some (t, e) \<Rightarrow>
          \<lparr>raised = Some e, manager = self', calls = concat (map calls rs),
           returns_at = t, sends = rs\<rparr>)"

text \<open>The tasks that have not settled when the caller is resumed.\<close>

definition in_flight :: "('d, 'm, 'o) fanout \<Rightarrow> ('d, 'm, 'o) task list" where
  "in_flight f = filter (\<lambda>r. returns_at f < settles r) (sends f)"

subsection \<open>\<^verbatim>\<open>broadcast\<close> and \<^verbatim>\<open>personal_broadcast\<close>\<close>

text \<open>\<^verbatim>\<open>exclude_ids = {exclude.id} if exclude else {}\<close>.\<close>

definition exclude_ids :: "user option \<Rightarrow> object_id set" where
  "exclude_ids exclude = (case exclude of Some u \<Rightarrow> {user_id u} | None \<Rightarrow> {})"

text \<open>
  The generator
  \<^verbatim>\<open>(self.send(client_id, data) for client_id, _ in self.connections.items()
      if client_id not in exclude_ids)\<close>
  is unpacked into the arguments of \<^verbatim>\<open>gather\<close>, hence run to its end before any
  task starts: \<open>recipients\<close> is the list of its \<^verbatim>\<open>client_id\<close>s.
\<close>

definition recipients :: "connection_manager \<Rightarrow> user option \<Rightarrow> object_id list" where
  "recipients self exclude =
     map fst (filter (\<lambda>(client_id, _). client_id \<notin> exclude_ids exclude) (connections self))"

text \<open>
  \<^verbatim>\<open>broadcast\<close>: after \<^verbatim>\<open>exclude_ids\<close>, the statement
  \<^verbatim>\<open>logger.debug(f'Broadcasting {pformat(data)}{f", excluding {exclude.name}" if exclude else ""}')\<close>
  evaluates \<^verbatim>\<open>pformat(data)\<close> before anything is sent; an exception of it leaves
  \<^verbatim>\<open>broadcast\<close> at once. Then comes the \<^verbatim>\<open>gather\<close> of the sends.
\<close>

definition broadcast ::
  "('d, 'm, 'o) env \<Rightarrow> connection_manager \<Rightarrow> ('d, 'm, 'o) data \<Rightarrow> user option \<Rightarrow>
   ('d, 'm, 'o) fanout" where
  "broadcast E self d exclude =
     (case pformat E d of
        Some e \<Rightarrow> \<lparr>raised = Some e, manager = self, calls = [], returns_at = 0, sends = []\<rparr>
      | None \<Rightarrow>
          gather (map (\<lambda>client_id s. send E s (ObjectId client_id) d) (recipients self exclude))
            self)"

text \<open>
  In \<^verbatim>\<open>personal_broadcast\<close> the generator evaluates
  \<^verbatim>\<open>data_factory(player_mapping[client_id])\<close> for each key in turn, again before
  \<^verbatim>\<open>gather\<close> is called: a key missing from \<^verbatim>\<open>player_mapping\<close> raises \<^verbatim>\<open>KeyError\<close>
  out of the generator, and then \<^verbatim>\<open>gather\<close> is never called.
\<close>

fun personal_data ::
  "(player_data \<Rightarrow> ('d, 'm, 'o) data) \<Rightarrow> (object_id \<rightharpoonup> player_data) \<Rightarrow>
   (object_id \<times> websocket) list \<Rightarrow> exn + (object_id \<times> ('d, 'm, 'o) data) list" where
  "personal_data data_factory player_mapping [] = Inr []"
| "personal_data data_factory player_mapping ((client_id, _) # rest) =
     (case player_mapping client_id of
        None \<Rightarrow> Inl (KeyError client_id)
      | Some p \<Rightarrow>
          (case personal_data data_factory player_mapping rest of
             Inl e \<Rightarrow> Inl e
           | Inr xs \<Rightarrow> Inr ((client_id, data_factory p) # xs)))"

definition personal_broadcast ::
  "('d, 'm, 'o) env \<Rightarrow> connection_manager \<Rightarrow> (player_data \<Rightarrow> ('d, 'm, 'o) data) \<Rightarrow>
   (object_id \<rightharpoonup> player_data) \<Rightarrow> ('d, 'm, 'o) fanout" where
  "personal_broadcast E self data_factory player_mapping =
     (case personal_data data_factory player_mapping (connections self) of
        Inl e \<Rightarrow> \<lparr>raised = Some e, manager = self, calls = [], returns_at = 0, sends = []\<rparr>
      | Inr xs \<Rightarrow> gather (map (\<lambda>(client_id, d) s. send E s (ObjectId client_id) d) xs) self)"

section \<open>Sequences of registrations, and the registry as the specification words it\<close>

text \<open>
  A sequence of \<^verbatim>\<open>add_connection\<close> and \<^verbatim>\<open>remove_connection\<close> calls. A call that
  raises leaves the dictionary as it was (\<^verbatim>\<open>del\<close> on a missing key changes
  nothing); \<open>replay\<close> records what each call raised and goes on.
\<close>

datatype op = Register user websocket | Unregister user

fun apply_op :: "connection_manager \<Rightarrow> op \<Rightarrow> exn + connection_manager" where
  "apply_op self (Register client connection) = Inr (add_connection self client connection)"
| "apply_op self (Unregister client) = remove_connection self client"

fun replay :: "connection_manager \<Rightarrow> op list \<Rightarrow> connection_manager \<times> exn option list" where
  "replay self [] = (self, [])"
| "replay self (x # xs) =
     (case apply_op self x of
        Inl e \<Rightarrow> (let (s, rs) = replay self xs in (s, Some e # rs))
      | Inr self' \<Rightarrow> (let (s, rs) = replay self' xs in (s, None # rs)))"

text \<open>
  The specification's registry is a mapping from identity to channel handle.
  Register inserts or replaces the entry of the identity; unregister removes it,
  or fails when the identity is absent. \<open>spec_replay\<close> is the net effect of a
  sequence on that mapping, with the identity of every failed unregister.
\<close>

definition spec_register ::
  "(object_id \<rightharpoonup> websocket) \<Rightarrow> object_id \<Rightarrow> websocket \<Rightarrow> (object_id \<rightharpoonup> websocket)" where
  "spec_register m k ws = m(k \<mapsto> ws)"

definition spec_unregister ::
  "(object_id \<rightharpoonup> websocket) \<Rightarrow> object_id \<Rightarrow> (object_id \<rightharpoonup> websocket) option" where
  "spec_unregister m k = (case m k of None \<Rightarrow> None | Some ws \<Rightarrow> Some (m(k := None)))"

fun spec_replay ::
  "(object_id \<rightharpoonup> websocket) \<Rightarrow> op list \<Rightarrow> (object_id \<rightharpoonup> websocket) \<times> object_id option list" where
  "spec_replay m [] = (m, [])"
| "spec_replay m (Register client connection # xs) =
     (let (m', rs) = spec_replay (spec_register m (user_id client) connection) xs
      in (m', None # rs))"
| "spec_replay m (Unregister client # xs) =
     (case spec_unregister m (user_id client) of
        None \<Rightarrow> (let (m', rs) = spec_replay m xs in (m', Some (user_id client) # rs))
      | Some m1 \<Rightarrow> (let (m', rs) = spec_replay m1 xs in (m', None # rs)))"

section \<open>Sample inputs\<close>

text \<open>
  Three players, and a game in which alice (on socket 10) and bob (on socket 20)
  are connected, in this order.
\<close>

definition alice :: user where
  "alice = \<lparr>user_id = 1, user_name = ''alice''\<rparr>"

definition bob :: user where
  "bob = \<lparr>user_id = 2, user_name = ''bob''\<rparr>"

definition carol :: user where
  "carol = \<lparr>user_id = 3, user_name = ''carol''\<rparr>"

definition game :: connection_manager where
  "game = add_connection (add_connection init alice 10) bob 20"

text \<open>A game in which bob has been registered on the socket alice is registered on.\<close>

definition shared :: connection_manager where
  "shared = add_connection (add_connection init alice 10) bob 10"

text \<open>
  Four dictionaries: \<open>Unserialisable\<close> holds a value that \<^verbatim>\<open>json.dumps\<close>
  rejects (a set, say), and \<open>Unprintable\<close> holds an object whose \<^verbatim>\<open>__repr__\<close>
  raises, so that \<^verbatim>\<open>pformat\<close> raises on it (and \<^verbatim>\<open>json.dumps\<close> rejects it too).
  A model is given by its JSON text, and a payload of another class is an integer. The environment \<open>sample_env w c\<close> has the transport whose writes
  behave as \<open>w\<close> says, socket by socket, and whose close behaves as \<open>c\<close> says.
\<close>

datatype sample_dict = Start | Tick | Unserialisable | Unprintable

definition sample_env ::
  "(websocket \<Rightarrow> nat \<times> exn option) \<Rightarrow> (websocket \<Rightarrow> exn option) \<Rightarrow> (sample_dict, string, int) env" where
  "sample_env w c =
     \<lparr>json_dumps = (\<lambda>d. case d of
          Start \<Rightarrow> Inr ''{type: start}''
        | Tick \<Rightarrow> Inr ''{type: tick}''
        | Unserialisable \<Rightarrow> Inl (Raised ''TypeError: Object of type set is not JSON serializable'')
        | Unprintable \<Rightarrow> Inl (Raised ''TypeError: Object of type Die is not JSON serializable'')),
      model_json = (\<lambda>m. Inr m),
      pformat = (\<lambda>d. case d of
          Dict Unprintable \<Rightarrow> Some (Raised ''ValueError: no repr'')
        | _ \<Rightarrow> None),
      send_text = (\<lambda>ws x. w ws),
      close = c\<rparr>"

text \<open>Every write and every close succeeds without suspending.\<close>

definition healthy :: "(sample_dict, string, int) env" where
  "healthy = sample_env (\<lambda>ws. (0, None)) (\<lambda>ws. None)"

text \<open>
  The socket \<open>dead\<close> has been closed by its peer: a write on it raises at once,
  and so does a close. A write on any other socket succeeds after suspending until
  the instant \<open>1\<close>.
\<close>

definition one_dead :: "websocket \<Rightarrow> (sample_dict, string, int) env" where
  "one_dead dead =
     sample_env (\<lambda>ws. if ws = dead then (0, Some (Raised ''RuntimeError: closed'')) else (1, None))
       (\<lambda>ws. if ws = dead then Some (Raised ''RuntimeError: closed'') else None)"

text \<open>
  The contexts of alice and bob, the context of alice alone, and a payload made
  from a context.
\<close>

definition players :: "object_id \<rightharpoonup> player_data" where
  "players = [1 \<mapsto> \<lparr>player_id = 1\<rparr>, 2 \<mapsto> \<lparr>player_id = 2\<rparr>]"

definition alice_only :: "object_id \<rightharpoonup> player_data" where
  "alice_only = [1 \<mapsto> \<lparr>player_id = 1\<rparr>]"

definition greeting :: "player_data \<Rightarrow> (sample_dict, string, int) data" where
  "greeting p = Str (if player_id p = 1 then ''for alice'' else ''for bob'')"

section \<open>Facts about the methods\<close>

lemma send_manager: "manager (send E self c d) = self"
  by (simp add: send_def Let_def split: sum.splits option.splits)

lemma start_send:
  "start (map (\<lambda>y s. send E s (f y) (g y)) ys) self =
     (map (\<lambda>y. send E self (f y) (g y)) ys, self)"
  by (induction ys) (simp_all add: Let_def send_manager)

lemma first_failure_None: "first_failure rs = None \<longleftrightarrow> (\<forall>r\<in>set rs. raised r = None)"
  by (induction rs) (auto split: option.splits prod.splits)

lemma first_failure_only:
  "i < length rs \<Longrightarrow> raised (rs ! i) = Some e \<Longrightarrow>
   (\<forall>j<length rs. j \<noteq> i \<longrightarrow> raised (rs ! j) = None) \<Longrightarrow>
   first_failure rs = Some (settles (rs ! i), e)"
proof (induction rs arbitrary: i)
  case Nil
  then show ?case by simp
next
  case (Cons r rs)
  show ?case
  proof (cases i)
    case 0
    have "\<forall>r'\<in>set rs. raised r' = None"
    proof
      fix r' assume "r' \<in> set rs"
      then obtain j where j: "j < length rs" "rs ! j = r'"
        by (auto simp: in_set_conv_nth)
      from Cons.prems(3)
      have "Suc j < length (r # rs) \<longrightarrow> Suc j \<noteq> i \<longrightarrow> raised ((r # rs) ! Suc j) = None"
        by blast
      with j 0 show "raised r' = None" by simp
    qed
    then have "first_failure rs = None" by (simp add: first_failure_None)
    with 0 Cons.prems(2) show ?thesis by simp
  next
    case (Suc k)
    have r: "raised r = None" using Cons.prems(3) Suc by auto
    have k: "k < length rs" "raised (rs ! k) = Some e" using Cons.prems Suc by auto
    have "\<forall>j<length rs. j \<noteq> k \<longrightarrow> raised (rs ! j) = None"
    proof (intro allI impI)
      fix j assume "j < length rs" "j \<noteq> k"
      with Cons.prems(3) Suc have "raised ((r # rs) ! Suc j) = None" by auto
      then show "raised (rs ! j) = None" by simp
    qed
    from Cons.IH[OF k this] r Suc show ?thesis by simp
  qed
qed

lemma gather_sends: "sends (gather cs self) = fst (start cs self)"
  by (simp add: gather_def split: prod.splits option.splits)

lemma gather_manager: "manager (gather cs self) = snd (start cs self)"
  by (simp add: gather_def split: prod.splits option.splits)

lemma gather_calls: "calls (gather cs self) = concat (map calls (fst (start cs self)))"
  by (simp add: gather_def split: prod.splits option.splits)

lemma gather_raised:
  "raised (gather cs self) = map_option snd (first_failure (fst (start cs self)))"
  by (simp add: gather_def split: prod.splits option.splits)

lemma gather_returns_at:
  "returns_at (gather cs self) =
     (case first_failure (fst (start cs self)) of
        None \<Rightarrow> fold max (map settles (fst (start cs self))) 0
      | Some (t, e) \<Rightarrow> t)"
  by (simp add: gather_def split: prod.splits option.splits)

lemma fold_max_ge: "(a::nat) \<le> fold max xs a"
proof (induction xs arbitrary: a)
  case Nil
  show ?case by simp
next
  case (Cons x xs)
  have "a \<le> max x a" by simp
  also have "\<dots> \<le> fold max xs (max x a)" by (rule Cons.IH)
  finally show ?case by simp
qed

lemma fold_max_upper: "x \<in> set xs \<Longrightarrow> (x::nat) \<le> fold max xs a"
proof (induction xs arbitrary: a)
  case Nil
  then show ?case by simp
next
  case (Cons y ys)
  show ?case
  proof (cases "x = y")
    case True
    have "x \<le> max y a" using True by simp
    also have "\<dots> \<le> fold max ys (max y a)" by (rule fold_max_ge)
    finally show ?thesis by simp
  next
    case False
    with Cons.prems have "x \<in> set ys" by simp
    from Cons.IH[OF this] show ?thesis by simp
  qed
qed

lemma gather_returned_all_settled:
  "raised (gather cs self) = None \<Longrightarrow> in_flight (gather cs self) = []"
proof -
  assume "raised (gather cs self) = None"
  then have "first_failure (fst (start cs self)) = None"
    by (simp add: gather_raised)
  then have "returns_at (gather cs self) = fold max (map settles (fst (start cs self))) 0"
    by (simp add: gather_returns_at)
  moreover have "\<forall>r\<in>set (fst (start cs self)). settles r \<le> fold max (map settles (fst (start cs self))) 0"
    by (simp add: fold_max_upper)
  ultimately show ?thesis
    by (simp add: in_flight_def gather_sends filter_empty_conv not_less)
qed

lemma broadcast_sends:
  "pformat E d = None \<Longrightarrow>
   sends (broadcast E self d ex) = map (\<lambda>k. send E self (ObjectId k) d) (recipients self ex)"
  by (simp add: broadcast_def gather_sends start_send)

lemma broadcast_raised_early:
  "pformat E d = Some e \<Longrightarrow>
   broadcast E self d ex =
     \<lparr>raised = Some e, manager = self, calls = [], returns_at = 0, sends = []\<rparr>"
  by (simp add: broadcast_def)

lemma broadcast_manager: "manager (broadcast E self d ex) = self"
  by (simp add: broadcast_def gather_manager start_send split: option.splits)

lemma personal_coroutines:
  "map (\<lambda>(client_id, d) s. send E s (ObjectId client_id) d) xs =
   map (\<lambda>y s. send E s (ObjectId (fst y)) (snd y)) xs"
  by (simp add: case_prod_beta)

lemma personal_broadcast_manager: "manager (personal_broadcast E self f pm) = self"
  by (simp add: personal_broadcast_def personal_coroutines gather_manager start_send
      split: sum.splits)

lemma replay_refines:
  "distinct (map fst (connections self)) \<Longrightarrow>
   map_of (connections (fst (replay self ops))) = fst (spec_replay (map_of (connections self)) ops) \<and>
   snd (replay self ops) = map (map_option KeyError) (snd (spec_replay (map_of (connections self)) ops)) \<and>
   distinct (map fst (connections (fst (replay self ops))))"
proof (induction ops arbitrary: self)
  case Nil
  then show ?case by simp
next
  case (Cons x xs)
  show ?case
  proof (cases x)
    case (Register client connection)
    let ?s = "add_connection self client connection"
    have d: "distinct (map fst (connections ?s))"
      using Cons.prems by (simp add: add_connection_def distinct_update)
    have m: "spec_register (map_of (connections self)) (user_id client) connection =
        map_of (connections ?s)"
      by (simp add: add_connection_def spec_register_def update_conv')
    have "replay self (x # xs) = (fst (replay ?s xs), None # snd (replay ?s xs))"
      by (simp add: Register case_prod_beta)
    moreover have "spec_replay (map_of (connections self)) (x # xs) =
        (fst (spec_replay (map_of (connections ?s)) xs),
         None # snd (spec_replay (map_of (connections ?s)) xs))"
      by (simp only: Register spec_replay.simps m case_prod_beta Let_def)
    ultimately show ?thesis using Cons.IH[OF d] by simp
  next
    case (Unregister client)
    show ?thesis
    proof (cases "map_of (connections self) (user_id client)")
      case None
      have "replay self (x # xs) =
          (fst (replay self xs), Some (KeyError (user_id client)) # snd (replay self xs))"
        using None by (simp add: Unregister remove_connection_def case_prod_beta)
      moreover have "spec_replay (map_of (connections self)) (x # xs) =
          (fst (spec_replay (map_of (connections self)) xs),
           Some (user_id client) # snd (spec_replay (map_of (connections self)) xs))"
        using None by (simp add: Unregister spec_unregister_def case_prod_beta)
      ultimately show ?thesis using Cons.IH[OF Cons.prems] by simp
    next
      case (Some ws)
      let ?s = "self\<lparr>connections := AList.delete (user_id client) (connections self)\<rparr>"
      have d: "distinct (map fst (connections ?s))"
        using Cons.prems by (simp add: distinct_delete)
      have m: "spec_unregister (map_of (connections self)) (user_id client) =
          Some (map_of (connections ?s))"
        using Some by (simp add: spec_unregister_def delete_conv')
      have "replay self (x # xs) = (fst (replay ?s xs), None # snd (replay ?s xs))"
        using Some by (simp add: Unregister remove_connection_def case_prod_beta)
      moreover have "spec_replay (map_of (connections self)) (x # xs) =
          (fst (spec_replay (map_of (connections ?s)) xs),
           None # snd (spec_replay (map_of (connections ?s)) xs))"
        by (simp only: Unregister spec_replay.simps m option.case case_prod_beta Let_def)
      ultimately show ?thesis using Cons.IH[OF d] by simp
    qed
  qed
qed


lemma gather_Nil:
  "gather [] self = \<lparr>raised = None, manager = self, calls = [], returns_at = 0, sends = []\<rparr>"
  by (simp add: gather_def)

lemma send_calls_registered:
  "map_of (connections self) (id_of c) = Some ws \<Longrightarrow>
   calls (send E self c d) = (case encode E d of Inl e \<Rightarrow> [] | Inr y \<Rightarrow> [SendText ws y])"
  by (simp add: send_def Let_def split: sum.splits)

lemma send_calls_socket:
  "SendText ws p \<in> set (calls (send E self c d)) \<Longrightarrow> map_of (connections self) (id_of c) = Some ws"
  by (auto simp: send_def Let_def split: sum.splits option.splits)

lemma broadcast_calls:
  "pformat E d = None \<Longrightarrow>
   calls (broadcast E self d ex) =
     concat (map (\<lambda>k. calls (send E self (ObjectId k) d)) (recipients self ex))"
  by (simp add: broadcast_def gather_calls start_send comp_def)

lemma broadcast_calls_subset:
  "set (calls (broadcast E self d ex)) \<subseteq>
     set (concat (map (\<lambda>k. calls (send E self (ObjectId k) d)) (recipients self ex)))"
  by (cases "pformat E d") (simp_all add: broadcast_calls broadcast_raised_early)

text \<open>
  The \<^verbatim>\<open>try\<close> of \<^verbatim>\<open>send\<close> encloses the awaited write as well as the lookup: a
  \<^verbatim>\<open>KeyError\<close> raised by the write of a connected client comes out as the
  \<^verbatim>\<open>LookupError\<close> of a client that is not connected. Any other exception of the
  write comes out as it is.
\<close>

lemma send_KeyError_of_write:
  "map_of (connections self) (id_of client) = Some ws \<Longrightarrow> encode E d = Inr x \<Longrightarrow>
   snd (send_text E ws x) = Some (KeyError k) \<Longrightarrow>
   raised (send E self client d) = Some (LookupError (id_of client) (KeyError k))"
  by (simp add: send_def Let_def)

lemma send_other_of_write:
  "map_of (connections self) (id_of client) = Some ws \<Longrightarrow> encode E d = Inr x \<Longrightarrow>
   snd (send_text E ws x) = Some e \<Longrightarrow> \<forall>k. e \<noteq> KeyError k \<Longrightarrow>
   raised (send E self client d) = Some e"
  by (cases e) (simp_all add: send_def Let_def)


lemma recipients_None: "recipients self None = map fst (connections self)"
  by (simp add: recipients_def exclude_ids_def)

lemma keys_without:
  "map fst (filter (\<lambda>(k, _). k \<noteq> a) xs) = removeAll a (map fst xs)"
  by (induction xs) auto

lemma recipients_Some:
  "recipients self (Some x) = removeAll (user_id x) (map fst (connections self))"
  by (simp add: recipients_def exclude_ids_def keys_without)

lemma length_removeAll_distinct:
  "distinct xs \<Longrightarrow> x \<in> set xs \<Longrightarrow> Suc (length (removeAll x xs)) = length xs"
  by (induction xs) auto

lemma concat_singletons: "(\<forall>x\<in>set xs. length (f x) = 1) \<Longrightarrow> length (concat (map f xs)) = length xs"
  by (induction xs) auto

lemma recipients_registered:
  "k \<in> set (recipients self ex) \<Longrightarrow> \<exists>ws. map_of (connections self) k = Some ws"
  by (cases "map_of (connections self) k")
     (auto simp: recipients_def map_of_eq_None_iff image_iff)

lemma broadcast_calls_length:
  "pformat E d = None \<Longrightarrow> encode E d = Inr y \<Longrightarrow>
   length (calls (broadcast E self d ex)) = length (recipients self ex)"
proof -
  assume pf: "pformat E d = None"
  assume e: "encode E d = Inr y"
  have "\<forall>k\<in>set (recipients self ex). length (calls (send E self (ObjectId k) d)) = 1"
  proof
    fix k assume "k \<in> set (recipients self ex)"
    then obtain ws where "map_of (connections self) (id_of (ObjectId k)) = Some ws"
      using recipients_registered by fastforce
    from send_calls_registered[OF this, of E d] e
    show "length (calls (send E self (ObjectId k) d)) = 1"
      by simp
  qed
  then show ?thesis by (simp add: broadcast_calls[OF pf] concat_singletons)
qed

lemma map_of_entry:
  "distinct (map fst xs) \<Longrightarrow> kw \<in> set xs \<Longrightarrow> map_of xs (fst kw) = Some (snd kw)"
  by (cases kw) simp

lemma send_returns:
  "raised (send E self c d) = None \<Longrightarrow>
   \<exists>ws y. map_of (connections self) (id_of c) = Some ws \<and> encode E d = Inr y \<and>
     calls (send E self c d) = [SendText ws y] \<and> snd (send_text E ws y) = None"
  by (cases "encode E d"; cases "map_of (connections self) (id_of c)")
    (auto simp: send_def Let_def elim: except_KeyError.elims)

lemma send_calls_entry:
  "distinct (map fst (connections self)) \<Longrightarrow> kw \<in> set (connections self) \<Longrightarrow>
   encode E d = Inr y \<Longrightarrow> calls (send E self (ObjectId (fst kw)) d) = [SendText (snd kw) y]"
proof -
  assume "distinct (map fst (connections self))" "kw \<in> set (connections self)"
  then have "map_of (connections self) (id_of (ObjectId (fst kw))) = Some (snd kw)"
    by (simp add: map_of_entry)
  from send_calls_registered[OF this, of E d] show
    "encode E d = Inr y \<Longrightarrow> calls (send E self (ObjectId (fst kw)) d) = [SendText (snd kw) y]"
    by simp
qed

lemma concat_map_singleton: "concat (map (\<lambda>x. [f x]) xs) = map f xs"
  by (induction xs) simp_all

lemma broadcast_calls_entries:
  assumes "distinct (map fst (connections self))" and "pformat E d = None"
    and "encode E d = Inr y"
  shows "calls (broadcast E self d ex) =
     map (\<lambda>kw. SendText (snd kw) y)
       (filter (\<lambda>kw. fst kw \<notin> exclude_ids ex) (connections self))"
proof -
  let ?es = "filter (\<lambda>kw. fst kw \<notin> exclude_ids ex) (connections self)"
  have r: "recipients self ex = map fst ?es"
    by (simp add: recipients_def split_def)
  have "map (\<lambda>kw. calls (send E self (ObjectId (fst kw)) d)) ?es =
      map (\<lambda>kw. [SendText (snd kw) y]) ?es"
  proof (rule map_cong[OF refl])
    fix kw assume "kw \<in> set ?es"
    then have "kw \<in> set (connections self)" by simp
    from send_calls_entry[OF assms(1) this assms(3)]
    show "calls (send E self (ObjectId (fst kw)) d) = [SendText (snd kw) y]" .
  qed
  from arg_cong[OF this, of concat]
  have "concat (map (\<lambda>kw. calls (send E self (ObjectId (fst kw)) d)) ?es) =
      map (\<lambda>kw. SendText (snd kw) y) ?es"
    by (simp only: concat_map_singleton)
  then show ?thesis
    by (simp add: broadcast_calls[OF assms(2)] r comp_def)
qed

lemmas sample_defs =
  alice_def bob_def carol_def game_def shared_def init_def add_connection_def sample_env_def
  healthy_def one_dead_def players_def alice_only_def greeting_def

section \<open>The claims\<close>

text \<open>
  C1 (as the code has it). For a registered identity, \<^verbatim>\<open>disconnect\<close> calls the
  close operation of that identity's socket exactly once, raises what close
  raises, and leaves the dictionary of connections as it was: the entry stays
  until \<^verbatim>\<open>remove_connection\<close> is called, whether close succeeds or fails.
\<close>

theorem disconnect_closes_once_keeps_entry:
  "map_of (connections self) (user_id client) = Some ws \<Longrightarrow>
   calls (disconnect E self client) = [Close ws] \<and>
   raised (disconnect E self client) = close E ws \<and>
   manager (disconnect E self client) = self"
  by (simp add: disconnect_def)

theorem disconnect_closes_once_keeps_entry_witness:
  "map_of (connections game) (user_id alice) = Some 10 \<and>
   calls (disconnect (one_dead 10) game alice) = [Close 10] \<and>
   raised (disconnect (one_dead 10) game alice) = Some (Raised ''RuntimeError: closed'') \<and>
   manager (disconnect (one_dead 10) game alice) = game"
  using disconnect_closes_once_keeps_entry [of game alice 10 "one_dead 10"]
  by (simp add: sample_defs)

text \<open>
  The claim C1 as it is written fails: after \<^verbatim>\<open>disconnect\<close> of alice, who is
  registered, her socket has been closed once and her entry is still there.
\<close>

theorem disconnect_removes_entry_counterexample:
  "calls (disconnect healthy game alice) = [Close 10] \<and>
   map_of (connections (manager (disconnect healthy game alice))) (user_id alice) \<noteq> None"
  by (simp add: sample_defs disconnect_def)

text \<open>
  C2 (as the code has it). When exactly one of the sends issued by a
  \<^verbatim>\<open>broadcast\<close> fails, the sends are one \<^verbatim>\<open>send\<close> to each recipient; the write
  to every other recipient is made with the payload and settles without error
  (nothing is cancelled); and \<^verbatim>\<open>broadcast\<close> raises exactly the exception of the
  failed \<^verbatim>\<open>send\<close>, with nothing added (for a write that raised anything but a
  \<^verbatim>\<open>KeyError\<close>: the exception of the write itself), at the instant that send
  settles. The sends still in flight then are exactly those that settle later.
\<close>

theorem broadcast_one_failure:
  assumes "i < length (sends (broadcast E self d exclude))"
    and "raised (sends (broadcast E self d exclude) ! i) = Some e"
    and "\<forall>j<length (sends (broadcast E self d exclude)). j \<noteq> i \<longrightarrow>
           raised (sends (broadcast E self d exclude) ! j) = None"
  shows "raised (broadcast E self d exclude) = Some e \<and>
    returns_at (broadcast E self d exclude) = settles (sends (broadcast E self d exclude) ! i) \<and>
    in_flight (broadcast E self d exclude) =
      filter (\<lambda>r. settles (sends (broadcast E self d exclude) ! i) < settles r)
        (sends (broadcast E self d exclude)) \<and>
    sends (broadcast E self d exclude) =
      map (\<lambda>k. send E self (ObjectId k) d) (recipients self exclude) \<and>
    (\<forall>j<length (recipients self exclude). j \<noteq> i \<longrightarrow>
       (\<exists>ws y. map_of (connections self) (recipients self exclude ! j) = Some ws \<and>
          encode E d = Inr y \<and> snd (send_text E ws y) = None \<and>
          calls (sends (broadcast E self d exclude) ! j) = [SendText ws y] \<and>
          SendText ws y \<in> set (calls (broadcast E self d exclude)))) \<and>
    (\<forall>ws y x. map_of (connections self) (recipients self exclude ! i) = Some ws \<and>
       encode E d = Inr y \<and> snd (send_text E ws y) = Some x \<and> (\<forall>k. x \<noteq> KeyError k) \<longrightarrow>
       e = x)"
proof -
  let ?B = "broadcast E self d exclude"
  let ?rs = "map (\<lambda>k. send E self (ObjectId k) d) (recipients self exclude)"
  have pf: "pformat E d = None"
  proof (cases "pformat E d")
    case None
    then show ?thesis .
  next
    case (Some e')
    from broadcast_raised_early[OF this] assms(1) show ?thesis by simp
  qed
  have s: "sends ?B = ?rs" by (rule broadcast_sends[OF pf])
  have n: "i < length (recipients self exclude)" using assms(1) s by simp
  have ff: "first_failure ?rs = Some (settles (?rs ! i), e)"
    using assms unfolding s by (intro first_failure_only) simp_all
  have st: "start (map (\<lambda>client_id s. send E s (ObjectId client_id) d) (recipients self exclude))
      self = (?rs, self)"
    by (rule start_send)
  have r: "raised ?B = Some e"
    by (simp add: broadcast_def pf gather_raised st ff del: first_failure.simps)
  have t: "returns_at ?B = settles (sends ?B ! i)"
    unfolding s by (simp add: broadcast_def pf gather_returns_at st ff del: first_failure.simps)
  have others: "\<exists>ws y. map_of (connections self) (recipients self exclude ! j) = Some ws \<and>
          encode E d = Inr y \<and> snd (send_text E ws y) = None \<and>
          calls (sends ?B ! j) = [SendText ws y] \<and> SendText ws y \<in> set (calls ?B)"
    if j: "j < length (recipients self exclude)" "j \<noteq> i" for j
  proof -
    from assms(3) j s have "raised (send E self (ObjectId (recipients self exclude ! j)) d) = None"
      by simp
    from send_returns[OF this] obtain ws y where
      w: "map_of (connections self) (recipients self exclude ! j) = Some ws" "encode E d = Inr y"
        "calls (send E self (ObjectId (recipients self exclude ! j)) d) = [SendText ws y]"
        "snd (send_text E ws y) = None"
      by auto
    have "recipients self exclude ! j \<in> set (recipients self exclude)" using j(1) by simp
    with w(3) have "SendText ws y \<in> set (calls ?B)"
      by (auto simp: broadcast_calls[OF pf] intro!: bexI[of _ "recipients self exclude ! j"])
    moreover have "calls (sends ?B ! j) = [SendText ws y]" using w(3) j(1) s by simp
    ultimately show ?thesis using w by blast
  qed
  have own: "e = x"
    if x: "map_of (connections self) (recipients self exclude ! i) = Some ws \<and>
       encode E d = Inr y \<and> snd (send_text E ws y) = Some x \<and> (\<forall>k. x \<noteq> KeyError k)"
    for ws y x
  proof -
    have "raised (send E self (ObjectId (recipients self exclude ! i)) d) = Some x"
      using x by (intro send_other_of_write[where ws = ws and x = y]) simp_all
    moreover have "raised (send E self (ObjectId (recipients self exclude ! i)) d) = Some e"
      using assms(2) n s by simp
    ultimately show ?thesis by simp
  qed
  show ?thesis
  proof (intro conjI)
    show "raised ?B = Some e" by (rule r)
    show "returns_at ?B = settles (sends ?B ! i)" by (rule t)
    show "in_flight ?B = filter (\<lambda>r. settles (sends ?B ! i) < settles r) (sends ?B)"
      by (simp add: in_flight_def t)
    show "sends ?B = ?rs" by (rule s)
    show "\<forall>j<length (recipients self exclude). j \<noteq> i \<longrightarrow>
       (\<exists>ws y. map_of (connections self) (recipients self exclude ! j) = Some ws \<and>
          encode E d = Inr y \<and> snd (send_text E ws y) = None \<and>
          calls (sends ?B ! j) = [SendText ws y] \<and> SendText ws y \<in> set (calls ?B))"
      using others by blast
    show "\<forall>ws y x. map_of (connections self) (recipients self exclude ! i) = Some ws \<and>
       encode E d = Inr y \<and> snd (send_text E ws y) = Some x \<and> (\<forall>k. x \<noteq> KeyError k) \<longrightarrow>
       e = x"
      using own by blast
  qed
qed

theorem broadcast_one_failure_witness:
  "map raised (sends (broadcast (one_dead 10) game (Str ''hi'') None)) =
     [Some (Raised ''RuntimeError: closed''), None] \<and>
   raised (broadcast (one_dead 10) game (Str ''hi'') None) = Some (Raised ''RuntimeError: closed'') \<and>
   returns_at (broadcast (one_dead 10) game (Str ''hi'') None) = 0 \<and>
   map calls (in_flight (broadcast (one_dead 10) game (Str ''hi'') None)) =
     [[SendText 20 (Str ''hi'')]] \<and>
   calls (broadcast (one_dead 10) game (Str ''hi'') None) =
     [SendText 10 (Str ''hi''), SendText 20 (Str ''hi'')]"
  using broadcast_one_failure [of 0 "one_dead 10" game "Str ''hi''" None
      "Raised ''RuntimeError: closed''"]
  by (simp add: sample_defs broadcast_def gather_def in_flight_def recipients_def exclude_ids_def
      send_def encode_def less_Suc_eq)

text \<open>
  The claim C2 as it is written fails. With alice's socket dead, only the send to
  alice fails; with bob's socket dead, only the send to bob fails; and
  \<^verbatim>\<open>broadcast\<close> raises the same exception in both cases, so what it reports does
  not tell which identity failed. And in the first case \<^verbatim>\<open>broadcast\<close> raises
  while the write to bob has not settled.
\<close>

theorem broadcast_one_failure_counterexample:
  "map raised (sends (broadcast (one_dead 10) game (Str ''hi'') None)) =
     [Some (Raised ''RuntimeError: closed''), None] \<and>
   map raised (sends (broadcast (one_dead 20) game (Str ''hi'') None)) =
     [None, Some (Raised ''RuntimeError: closed'')] \<and>
   raised (broadcast (one_dead 10) game (Str ''hi'') None) =
     raised (broadcast (one_dead 20) game (Str ''hi'') None) \<and>
   map calls (in_flight (broadcast (one_dead 10) game (Str ''hi'') None)) =
     [[SendText 20 (Str ''hi'')]]"
  by (simp add: sample_defs broadcast_def recipients_def exclude_ids_def send_def encode_def
      gather_def in_flight_def)

text \<open>
  C3 (as the code has it). \<^verbatim>\<open>send\<close> encodes the payload before it looks the
  identity up. For an identity absent from the registry it makes no write, and it
  raises \<^verbatim>\<open>LookupError\<close> caused by the \<^verbatim>\<open>KeyError\<close> of the lookup, unless the
  serialiser raised first: then that exception is what it raises. For a registered
  identity, an exception of the write that is not a \<^verbatim>\<open>KeyError\<close> is propagated
  as it is.
\<close>

theorem send_to_absent_identity:
  "(map_of (connections self) (id_of client) = None \<longrightarrow>
      calls (send E self client d) = [] \<and>
      raised (send E self client d) =
        (case encode E d of
           Inl e \<Rightarrow> Some e
         | Inr x \<Rightarrow> Some (LookupError (id_of client) (KeyError (id_of client))))) \<and>
   (map_of (connections self) (id_of client) = Some ws \<and> encode E d = Inr x \<and>
    snd (send_text E ws x) = Some e \<and> (\<forall>k. e \<noteq> KeyError k) \<longrightarrow>
      calls (send E self client d) = [SendText ws x] \<and>
      raised (send E self client d) = Some e)"
  by (cases e) (simp_all add: send_def Let_def split: sum.splits)

theorem send_to_absent_identity_witness:
  "map_of (connections game) (id_of (User carol)) = None \<and>
   calls (send healthy game (User carol) (Dict Start)) = [] \<and>
   raised (send healthy game (User carol) (Dict Start)) = Some (LookupError 3 (KeyError 3)) \<and>
   map_of (connections game) (id_of (User alice)) = Some 10 \<and>
   encode (one_dead 10) (Dict Start) = Inr (Str ''{type: start}'') \<and>
   snd (send_text (one_dead 10) 10 (Str ''{type: start}'')) = Some (Raised ''RuntimeError: closed'') \<and>
   calls (send (one_dead 10) game (User alice) (Dict Start)) = [SendText 10 (Str ''{type: start}'')] \<and>
   raised (send (one_dead 10) game (User alice) (Dict Start)) = Some (Raised ''RuntimeError: closed'')"
  using send_to_absent_identity [of game "User carol" healthy "Dict Start"]
    send_to_absent_identity [where self = game and client = "User alice" and ws = 10
      and E = "one_dead 10" and d = "Dict Start" and x = "Str ''{type: start}''"
      and e = "Raised ''RuntimeError: closed''"]
  by (simp add: sample_defs encode_def)

text \<open>
  The claim C3 as it is written fails. Carol is not registered, and a send to her
  of a dictionary that cannot be serialised raises the serialiser's
  \<^verbatim>\<open>TypeError\<close>, not \<^verbatim>\<open>LookupError\<close>.
\<close>

theorem send_to_absent_identity_counterexample:
  "map_of (connections game) (id_of (User carol)) = None \<and>
   raised (send healthy game (User carol) (Dict Unserialisable)) =
     Some (Raised ''TypeError: Object of type set is not JSON serializable'')"
  by (simp add: sample_defs send_def encode_def)

text \<open>
  C4 (as the code has it). In \<^verbatim>\<open>send\<close>, a text payload reaches the write as it
  is, a dictionary as the text \<^verbatim>\<open>json.dumps\<close> returns, a model as the text its
  \<^verbatim>\<open>json()\<close> returns, and a payload of any other class is not checked: it
  reaches the write as it is. When the serialiser raises, \<^verbatim>\<open>send\<close> raises the same
  and writes nothing. \<^verbatim>\<open>broadcast\<close>, once its log line has formatted the payload,
  and \<^verbatim>\<open>personal_broadcast\<close> write nothing of their own: their writes are those
  of the \<^verbatim>\<open>send\<close> to each recipient, in order.
\<close>

theorem payload_encoding:
  "(map_of (connections self) (id_of client) = Some ws \<longrightarrow>
      calls (send E self client d) =
        (case d of
           Str s \<Rightarrow> [SendText ws (Str s)]
         | Dict x \<Rightarrow> (case json_dumps E x of Inl e \<Rightarrow> [] | Inr s \<Rightarrow> [SendText ws (Str s)])
         | Model m \<Rightarrow> (case model_json E m of Inl e \<Rightarrow> [] | Inr s \<Rightarrow> [SendText ws (Str s)])
         | Obj v \<Rightarrow> [SendText ws (Obj v)])) \<and>
   (encode E d = Inl e \<longrightarrow>
      raised (send E self client d) = Some e \<and> calls (send E self client d) = []) \<and>
   (pformat E d = None \<longrightarrow>
      calls (broadcast E self d exclude) =
        concat (map (\<lambda>k. calls (send E self (ObjectId k) d)) (recipients self exclude))) \<and>
   (personal_data data_factory player_mapping (connections self) = Inr xs \<longrightarrow>
      calls (personal_broadcast E self data_factory player_mapping) =
        concat (map (\<lambda>(k, d'). calls (send E self (ObjectId k) d')) xs))"
proof (intro conjI impI)
  assume "map_of (connections self) (id_of client) = Some ws"
  then show "calls (send E self client d) =
        (case d of
           Str s \<Rightarrow> [SendText ws (Str s)]
         | Dict x \<Rightarrow> (case json_dumps E x of Inl e \<Rightarrow> [] | Inr s \<Rightarrow> [SendText ws (Str s)])
         | Model m \<Rightarrow> (case model_json E m of Inl e \<Rightarrow> [] | Inr s \<Rightarrow> [SendText ws (Str s)])
         | Obj v \<Rightarrow> [SendText ws (Obj v)])"
    by (cases d) (simp_all add: send_def encode_def Let_def split: sum.splits)
next
  assume "encode E d = Inl e"
  then show "raised (send E self client d) = Some e" by (simp add: send_def)
next
  assume "encode E d = Inl e"
  then show "calls (send E self client d) = []" by (simp add: send_def)
next
  assume "pformat E d = None"
  then show "calls (broadcast E self d exclude) =
     concat (map (\<lambda>k. calls (send E self (ObjectId k) d)) (recipients self exclude))"
    by (rule broadcast_calls)
next
  assume "personal_data data_factory player_mapping (connections self) = Inr xs"
  then show "calls (personal_broadcast E self data_factory player_mapping) =
        concat (map (\<lambda>(k, d'). calls (send E self (ObjectId k) d')) xs)"
    by (simp add: personal_broadcast_def personal_coroutines gather_calls start_send comp_def
        split_def)
qed

theorem payload_encoding_witness:
  "map_of (connections game) (id_of (ObjectId 2)) = Some 20 \<and>
   calls (send healthy game (ObjectId 2) (Str ''hi'')) = [SendText 20 (Str ''hi'')] \<and>
   calls (send healthy game (ObjectId 2) (Dict Tick)) = [SendText 20 (Str ''{type: tick}'')] \<and>
   calls (send healthy game (ObjectId 2) (Model ''{dice: 5}'')) = [SendText 20 (Str ''{dice: 5}'')] \<and>
   encode healthy (Dict Unserialisable) =
     Inl (Raised ''TypeError: Object of type set is not JSON serializable'') \<and>
   raised (send healthy game (ObjectId 2) (Dict Unserialisable)) =
     Some (Raised ''TypeError: Object of type set is not JSON serializable'') \<and>
   calls (send healthy game (ObjectId 2) (Dict Unserialisable)) = [] \<and>
   pformat healthy (Dict Tick) = None \<and>
   calls (broadcast healthy game (Dict Tick) None) =
     [SendText 10 (Str ''{type: tick}''), SendText 20 (Str ''{type: tick}'')] \<and>
   personal_data greeting players (connections game) =
     Inr [(1, Str ''for alice''), (2, Str ''for bob'')] \<and>
   calls (personal_broadcast healthy game greeting players) =
     [SendText 10 (Str ''for alice''), SendText 20 (Str ''for bob'')]"
  using
    payload_encoding [where self = game and client = "ObjectId 2" and ws = 20 and E = healthy
      and d = "Str ''hi''" and exclude = None and data_factory = greeting
      and player_mapping = players and xs = "[(1, Str ''for alice''), (2, Str ''for bob'')]"]
    payload_encoding [where self = game and client = "ObjectId 2" and ws = 20 and E = healthy
      and d = "Dict Tick" and exclude = None]
    payload_encoding [where self = game and client = "ObjectId 2" and ws = 20 and E = healthy
      and d = "Model ''{dice: 5}''"]
    payload_encoding [where self = game and client = "ObjectId 2" and E = healthy
      and d = "Dict Unserialisable"
      and e = "Raised ''TypeError: Object of type set is not JSON serializable''"]
  by (simp add: sample_defs encode_def send_def recipients_def exclude_ids_def)

text \<open>
  The claim C4 as it is written fails on a payload that is neither text, nor a
  dictionary, nor a model: the integer 5 sent to alice is written on her socket.
\<close>

theorem payload_encoding_counterexample:
  "calls (send healthy game (User alice) (Obj 5)) = [SendText 10 (Obj 5)]"
  by (simp add: sample_defs send_def encode_def)




text \<open>
  C6 (as the code has it). In a registry of N identities (a dictionary: no key
  twice) and for a payload the log line can format, \<^verbatim>\<open>broadcast\<close> without
  exclusion issues exactly N sends, one to each registered identity in the order
  of the registry, and when the payload encodes one write on the socket of each;
  with a registered identity excluded it issues exactly N - 1 sends, one to each
  other registered identity and none to the excluded one, and when the payload
  encodes one write on the socket of each other identity. The socket of the
  excluded identity is not written to if no other identity is registered on it.
\<close>

theorem broadcast_send_count:
  assumes "distinct (map fst (connections self))"
    and "pformat E d = None"
  shows "sends (broadcast E self d None) =
      map (\<lambda>k. send E self (ObjectId k) d) (map fst (connections self)) \<and>
    length (sends (broadcast E self d None)) = length (connections self) \<and>
    (encode E d = Inr y \<longrightarrow>
       calls (broadcast E self d None) = map (\<lambda>(k, ws). SendText ws y) (connections self)) \<and>
    sends (broadcast E self d (Some x)) =
      map (\<lambda>k. send E self (ObjectId k) d) (removeAll (user_id x) (map fst (connections self))) \<and>
    (user_id x \<in> fst ` set (connections self) \<longrightarrow>
       Suc (length (sends (broadcast E self d (Some x)))) = length (connections self)) \<and>
    (encode E d = Inr y \<longrightarrow>
       calls (broadcast E self d (Some x)) =
         map (\<lambda>(k, ws). SendText ws y)
           (filter (\<lambda>(k, ws). k \<noteq> user_id x) (connections self))) \<and>
    (map_of (connections self) (user_id x) = Some ws \<and>
     (\<forall>k. k \<noteq> user_id x \<longrightarrow> map_of (connections self) k \<noteq> Some ws) \<longrightarrow>
       SendText ws p \<notin> set (calls (broadcast E self d (Some x))))"
proof (intro conjI impI)
  note pf = assms(2)
  show "sends (broadcast E self d None) =
      map (\<lambda>k. send E self (ObjectId k) d) (map fst (connections self))"
    by (simp add: broadcast_sends[OF pf] recipients_None)
  show "length (sends (broadcast E self d None)) = length (connections self)"
    by (simp add: broadcast_sends[OF pf] recipients_None)
  show "sends (broadcast E self d (Some x)) =
      map (\<lambda>k. send E self (ObjectId k) d) (removeAll (user_id x) (map fst (connections self)))"
    by (simp add: broadcast_sends[OF pf] recipients_Some)
  show "calls (broadcast E self d None) = map (\<lambda>(k, ws). SendText ws y) (connections self)"
    if "encode E d = Inr y"
    using broadcast_calls_entries[OF assms(1) pf that, of None]
    by (simp add: exclude_ids_def split_def)
  show "calls (broadcast E self d (Some x)) =
         map (\<lambda>(k, ws). SendText ws y)
           (filter (\<lambda>(k, ws). k \<noteq> user_id x) (connections self))"
    if "encode E d = Inr y"
    using broadcast_calls_entries[OF assms(1) pf that, of "Some x"]
    by (simp add: exclude_ids_def split_def)
next
  assume x: "user_id x \<in> fst ` set (connections self)"
  then have "Suc (length (recipients self (Some x))) = length (connections self)"
    using assms(1) length_removeAll_distinct[of "map fst (connections self)" "user_id x"]
    by (simp add: recipients_Some)
  then show "Suc (length (sends (broadcast E self d (Some x)))) = length (connections self)"
    by (simp add: broadcast_sends[OF assms(2)])
next
  assume a: "map_of (connections self) (user_id x) = Some ws \<and>
     (\<forall>k. k \<noteq> user_id x \<longrightarrow> map_of (connections self) k \<noteq> Some ws)"
  show "SendText ws p \<notin> set (calls (broadcast E self d (Some x)))"
  proof
    assume "SendText ws p \<in> set (calls (broadcast E self d (Some x)))"
    then obtain k where k: "k \<in> set (recipients self (Some x))"
      "SendText ws p \<in> set (calls (send E self (ObjectId k) d))"
      by (auto simp: broadcast_calls[OF assms(2)])
    from send_calls_socket[OF k(2)] have "map_of (connections self) k = Some ws" by simp
    moreover from k(1) have "k \<noteq> user_id x" by (simp add: recipients_Some)
    ultimately show False using a by blast
  qed
qed

theorem broadcast_send_count_witness:
  "distinct (map fst (connections game)) \<and>
   pformat healthy (Dict Start) = None \<and>
   map calls (sends (broadcast healthy game (Dict Start) None)) =
     [[SendText 10 (Str ''{type: start}'')], [SendText 20 (Str ''{type: start}'')]] \<and>
   calls (broadcast healthy game (Dict Start) None) =
     [SendText 10 (Str ''{type: start}''), SendText 20 (Str ''{type: start}'')] \<and>
   user_id alice \<in> fst ` set (connections game) \<and>
   length (sends (broadcast healthy game (Dict Start) (Some alice))) = 1 \<and>
   map_of (connections game) (user_id alice) = Some 10 \<and>
   filter (\<lambda>(k, ws). ws = 10) (connections game) = [(user_id alice, 10)] \<and>
   calls (broadcast healthy game (Dict Start) (Some alice)) = [SendText 20 (Str ''{type: start}'')] \<and>
   SendText 10 (Str ''{type: start}'') \<notin> set (calls (broadcast healthy game (Dict Start) (Some alice)))"
  using broadcast_send_count [where self = game and E = healthy and d = "Dict Start"
      and y = "Str ''{type: start}''" and x = alice and ws = 10 and p = "Str ''{type: start}''"]
  by (simp add: sample_defs send_def encode_def)

text \<open>
  The claim C6 as it is written fails twice. With bob registered on the socket of
  alice, a \<^verbatim>\<open>broadcast\<close> that excludes alice writes on her socket, for bob. And
  with two identities registered, a \<^verbatim>\<open>broadcast\<close> of a payload whose
  \<^verbatim>\<open>__repr__\<close> raises issues no send at all: it raises in its log line.
\<close>

theorem broadcast_send_count_counterexample:
  "connections shared = [(1, 10), (2, 10)] \<and>
   map_of (connections shared) (user_id alice) = Some 10 \<and>
   calls (broadcast healthy shared (Str ''hi'') (Some alice)) = [SendText 10 (Str ''hi'')] \<and>
   connections game = [(1, 10), (2, 20)] \<and>
   sends (broadcast healthy game (Dict Unprintable) None) = [] \<and>
   raised (broadcast healthy game (Dict Unprintable) None) = Some (Raised ''ValueError: no repr'')"
  by (simp add: sample_defs broadcast_def recipients_def exclude_ids_def send_def encode_def
      gather_def)



text \<open>
  C8. For every finite sequence of \<^verbatim>\<open>add_connection\<close> and \<^verbatim>\<open>remove_connection\<close>
  calls on a new manager, the membership at the end is the net effect of the
  sequence on the specification's mapping: registering inserts or overwrites the
  one entry of the identity (last write wins), unregistering removes it, or fails
  (and changes nothing) when the identity is absent; the calls that fail are the
  same on both sides, and no identity ever has two entries.
\<close>

theorem register_unregister_net_effect:
  "map_of (connections (fst (replay init ops))) = fst (spec_replay Map.empty ops) \<and>
   snd (replay init ops) = map (map_option KeyError) (snd (spec_replay Map.empty ops)) \<and>
   distinct (map fst (connections (fst (replay init ops))))"
  using replay_refines [of init ops] by (simp add: init_def)

theorem register_unregister_net_effect_witness:
  "connections (fst (replay init
      [Register alice 10, Register bob 20, Register alice 11, Unregister carol, Unregister bob])) =
     [(1, 11)] \<and>
   snd (replay init
      [Register alice 10, Register bob 20, Register alice 11, Unregister carol, Unregister bob]) =
     [None, None, None, Some (KeyError 3), None] \<and>
   fst (spec_replay Map.empty
      [Register alice 10, Register bob 20, Register alice 11, Unregister carol, Unregister bob]) =
     [1 \<mapsto> 11] \<and>
   snd (spec_replay Map.empty
      [Register alice 10, Register bob 20, Register alice 11, Unregister carol, Unregister bob]) =
     [None, None, None, Some 3, None]"
  using register_unregister_net_effect
    [of "[Register alice 10, Register bob 20, Register alice 11, Unregister carol, Unregister bob]"]
  by (simp add: sample_defs remove_connection_def spec_register_def spec_unregister_def fun_eq_iff)

text \<open>
  C9. Whatever the registry, the payload and the outcome, \<^verbatim>\<open>send\<close>, \<^verbatim>\<open>broadcast\<close>
  and \<^verbatim>\<open>personal_broadcast\<close> leave the dictionary of connections as it was: no
  entry is added or removed by a send or by a fan-out, not even when a send fails.
\<close>

theorem sends_leave_registry_unchanged:
  "connections (manager (send E self client d)) = connections self \<and>
   connections (manager (broadcast E self d exclude)) = connections self \<and>
   connections (manager (personal_broadcast E self data_factory player_mapping)) =
     connections self"
  by (simp add: send_manager broadcast_manager personal_broadcast_manager)

theorem sends_leave_registry_unchanged_witness:
  "raised (send (one_dead 10) game (User alice) (Dict Start)) \<noteq> None \<and>
   raised (broadcast (one_dead 10) game (Dict Start) None) \<noteq> None \<and>
   connections (manager (send (one_dead 10) game (User alice) (Dict Start))) = [(1, 10), (2, 20)] \<and>
   connections (manager (broadcast (one_dead 10) game (Dict Start) None)) = [(1, 10), (2, 20)] \<and>
   connections (manager (personal_broadcast (one_dead 10) game greeting players)) =
     [(1, 10), (2, 20)]"
  using sends_leave_registry_unchanged
    [of "one_dead 10" game "User alice" "Dict Start" None greeting players]
  by (simp add: sample_defs send_def encode_def broadcast_def recipients_def exclude_ids_def
      gather_def Let_def)

text \<open>
  C10 (as the code has it). On the empty registry, and whenever every registered
  identity is excluded, \<^verbatim>\<open>broadcast\<close> starts no send and makes no write, whatever
  the payload, and it returns without an exception for every payload its log line
  can format.
\<close>

theorem broadcast_to_nobody:
  "fst ` set (connections self) \<subseteq> exclude_ids exclude \<Longrightarrow>
   calls (broadcast E self d exclude) = [] \<and>
   sends (broadcast E self d exclude) = [] \<and>
   (pformat E d = None \<longrightarrow> raised (broadcast E self d exclude) = None)"
proof -
  assume "fst ` set (connections self) \<subseteq> exclude_ids exclude"
  then have "recipients self exclude = []"
    by (auto simp: recipients_def filter_empty_conv)
  then show ?thesis by (simp add: broadcast_def gather_Nil split: option.splits)
qed

theorem broadcast_to_nobody_witness:
  "fst ` set (connections init) \<subseteq> exclude_ids None \<and>
   pformat (one_dead 10) (Dict Unserialisable) = None \<and>
   raised (broadcast (one_dead 10) init (Dict Unserialisable) None) = None \<and>
   calls (broadcast (one_dead 10) init (Dict Unserialisable) None) = [] \<and>
   fst ` set (connections (add_connection init alice 10)) \<subseteq> exclude_ids (Some alice) \<and>
   pformat (one_dead 10) (Dict Start) = None \<and>
   raised (broadcast (one_dead 10) (add_connection init alice 10) (Dict Start) (Some alice)) = None \<and>
   calls (broadcast (one_dead 10) (add_connection init alice 10) (Dict Start) (Some alice)) = []"
  using broadcast_to_nobody [of init None "one_dead 10" "Dict Unserialisable"]
    broadcast_to_nobody [of "add_connection init alice 10" "Some alice" "one_dead 10" "Dict Start"]
  by (simp add: sample_defs exclude_ids_def)

text \<open>
  The claim C10 as it is written fails: on the empty registry, a \<^verbatim>\<open>broadcast\<close>
  of a payload whose \<^verbatim>\<open>__repr__\<close> raises does not succeed; it raises in its
  log line (and writes nothing).
\<close>

theorem broadcast_to_nobody_counterexample:
  "connections init = [] \<and>
   raised (broadcast healthy init (Dict Unprintable) None) = Some (Raised ''ValueError: no repr'') \<and>
   calls (broadcast healthy init (Dict Unprintable) None) = []"
  by (simp add: sample_defs broadcast_def)

end
